theory Spec2Isabelle
  imports Main
begin

section \<open>Message search and snippet extraction of the session search modal\<close>

text \<open>
  The search modal holds three pure functions: \<open>getMessageText\<close>, \<open>createSnippet\<close> and
  \<open>searchMessages\<close>. They are embedded here together with the ECMAScript string
  operations they call.

  A JavaScript string is a sequence of UTF-16 code units. A code unit is an integer
  here (from 0 to 65535 in every string of the program), so that \<open>length\<close> is the
  source's \<open>.length\<close> and every index counts code units. Numbers that the source uses as
  indices and lengths are integers (\<^typ>\<open>int\<close>), negative ones included; \<open>NaN\<close>,
  infinities and fractions are outside the embedding. Identifiers and tags, which the
  program only passes on, are plain strings.
\<close>

type_synonym jsstring = "int list"

text \<open>A string literal of the source, for characters below 256.\<close>

definition str :: "string \<Rightarrow> jsstring" where
  "str s = map of_char s"

subsection \<open>Unicode case data\<close>

text \<open>
  \<open>String.prototype.toLowerCase\<close> works on code points and follows the Unicode Default
  Case Conversion: the lower-case mappings of \<open>UnicodeData.txt\<close>, the unconditional and
  the language-insensitive mappings of \<open>SpecialCasing.txt\<close>. The data below are those of
  Unicode 14.0.0, in decimal and in ascending order; an engine built on another version
  of the standard differs in the code points that the version adds or changes.

  \<open>lowerRanges\<close> holds the simple lower-case mappings as runs \<open>(first, last, step, target)\<close>:
  the code points \<open>first\<close>, \<open>first + step\<close>, ... up to \<open>last\<close> map to \<open>target\<close>,
  \<open>target + step\<close>, ... .
\<close>

definition lowerRanges :: "(int \<times> int \<times> int \<times> int) list" where
  "lowerRanges =
     [
      (65, 90, 1, 97), (192, 214, 1, 224), (216, 222, 1, 248), (256, 302, 2, 257),
      (306, 310, 2, 307), (313, 327, 2, 314), (330, 374, 2, 331), (376, 376, 1, 255),
      (377, 381, 2, 378), (385, 385, 1, 595), (386, 388, 2, 387), (390, 390, 1, 596),
      (391, 391, 1, 392), (393, 394, 1, 598), (395, 395, 1, 396), (398, 398, 1, 477),
      (399, 399, 1, 601), (400, 400, 1, 603), (401, 401, 1, 402), (403, 403, 1, 608),
      (404, 404, 1, 611), (406, 406, 1, 617), (407, 407, 1, 616), (408, 408, 1, 409),
      (412, 412, 1, 623), (413, 413, 1, 626), (415, 415, 1, 629), (416, 420, 2, 417),
      (422, 422, 1, 640), (423, 423, 1, 424), (425, 425, 1, 643), (428, 428, 1, 429),
      (430, 430, 1, 648), (431, 431, 1, 432), (433, 434, 1, 650), (435, 437, 2, 436),
      (439, 439, 1, 658), (440, 440, 1, 441), (444, 444, 1, 445), (452, 452, 1, 454),
      (453, 453, 1, 454), (455, 455, 1, 457), (456, 456, 1, 457), (458, 458, 1, 460),
      (459, 475, 2, 460), (478, 494, 2, 479), (497, 497, 1, 499), (498, 500, 2, 499),
      (502, 502, 1, 405), (503, 503, 1, 447), (504, 542, 2, 505), (544, 544, 1, 414),
      (546, 562, 2, 547), (570, 570, 1, 11365), (571, 571, 1, 572), (573, 573, 1, 410),
      (574, 574, 1, 11366), (577, 577, 1, 578), (579, 579, 1, 384), (580, 580, 1, 649),
      (581, 581, 1, 652), (582, 590, 2, 583), (880, 882, 2, 881), (886, 886, 1, 887),
      (895, 895, 1, 1011), (902, 902, 1, 940), (904, 906, 1, 941), (908, 908, 1, 972),
      (910, 911, 1, 973), (913, 929, 1, 945), (931, 939, 1, 963), (975, 975, 1, 983),
      (984, 1006, 2, 985), (1012, 1012, 1, 952), (1015, 1015, 1, 1016), (1017, 1017, 1, 1010),
      (1018, 1018, 1, 1019), (1021, 1023, 1, 891), (1024, 1039, 1, 1104), (1040, 1071, 1, 1072),
      (1120, 1152, 2, 1121), (1162, 1214, 2, 1163), (1216, 1216, 1, 1231), (1217, 1229, 2, 1218),
      (1232, 1326, 2, 1233), (1329, 1366, 1, 1377), (4256, 4293, 1, 11520), (4295, 4295, 1, 11559),
      (4301, 4301, 1, 11565), (5024, 5103, 1, 43888), (5104, 5109, 1, 5112), (7312, 7354, 1, 4304),
      (7357, 7359, 1, 4349), (7680, 7828, 2, 7681), (7838, 7838, 1, 223), (7840, 7934, 2, 7841),
      (7944, 7951, 1, 7936), (7960, 7965, 1, 7952), (7976, 7983, 1, 7968), (7992, 7999, 1, 7984),
      (8008, 8013, 1, 8000), (8025, 8031, 2, 8017), (8040, 8047, 1, 8032), (8072, 8079, 1, 8064),
      (8088, 8095, 1, 8080), (8104, 8111, 1, 8096), (8120, 8121, 1, 8112), (8122, 8123, 1, 8048),
      (8124, 8124, 1, 8115), (8136, 8139, 1, 8050), (8140, 8140, 1, 8131), (8152, 8153, 1, 8144),
      (8154, 8155, 1, 8054), (8168, 8169, 1, 8160), (8170, 8171, 1, 8058), (8172, 8172, 1, 8165),
      (8184, 8185, 1, 8056), (8186, 8187, 1, 8060), (8188, 8188, 1, 8179), (8486, 8486, 1, 969),
      (8490, 8490, 1, 107), (8491, 8491, 1, 229), (8498, 8498, 1, 8526), (8544, 8559, 1, 8560),
      (8579, 8579, 1, 8580), (9398, 9423, 1, 9424), (11264, 11311, 1, 11312), (11360, 11360, 1, 11361),
      (11362, 11362, 1, 619), (11363, 11363, 1, 7549), (11364, 11364, 1, 637), (11367, 11371, 2, 11368),
      (11373, 11373, 1, 593), (11374, 11374, 1, 625), (11375, 11375, 1, 592), (11376, 11376, 1, 594),
      (11378, 11378, 1, 11379), (11381, 11381, 1, 11382), (11390, 11391, 1, 575), (11392, 11490, 2, 11393),
      (11499, 11501, 2, 11500), (11506, 11506, 1, 11507), (42560, 42604, 2, 42561), (42624, 42650, 2, 42625),
      (42786, 42798, 2, 42787), (42802, 42862, 2, 42803), (42873, 42875, 2, 42874), (42877, 42877, 1, 7545),
      (42878, 42886, 2, 42879), (42891, 42891, 1, 42892), (42893, 42893, 1, 613), (42896, 42898, 2, 42897),
      (42902, 42920, 2, 42903), (42922, 42922, 1, 614), (42923, 42923, 1, 604), (42924, 42924, 1, 609),
      (42925, 42925, 1, 620), (42926, 42926, 1, 618), (42928, 42928, 1, 670), (42929, 42929, 1, 647),
      (42930, 42930, 1, 669), (42931, 42931, 1, 43859), (42932, 42946, 2, 42933), (42948, 42948, 1, 42900),
      (42949, 42949, 1, 642), (42950, 42950, 1, 7566), (42951, 42953, 2, 42952), (42960, 42960, 1, 42961),
      (42966, 42968, 2, 42967), (42997, 42997, 1, 42998), (65313, 65338, 1, 65345), (66560, 66599, 1, 66600),
      (66736, 66771, 1, 66776), (66928, 66938, 1, 66967), (66940, 66954, 1, 66979), (66956, 66962, 1, 66995),
      (66964, 66965, 1, 67003), (68736, 68786, 1, 68800), (71840, 71871, 1, 71872), (93760, 93791, 1, 93792),
      (125184, 125217, 1, 125218)
     ]"

text \<open>The code points with the property \<open>Case_Ignorable\<close>, as runs \<open>(first, last)\<close>.\<close>

definition caseIgnorableRanges :: "(int \<times> int) list" where
  "caseIgnorableRanges =
     [
      (39, 39), (46, 46), (58, 58), (94, 94), (96, 96), (168, 168),
      (173, 173), (175, 175), (180, 180), (183, 184), (688, 879), (884, 885),
      (890, 890), (900, 901), (903, 903), (1155, 1161), (1369, 1369), (1375, 1375),
      (1425, 1469), (1471, 1471), (1473, 1474), (1476, 1477), (1479, 1479), (1524, 1524),
      (1536, 1541), (1552, 1562), (1564, 1564), (1600, 1600), (1611, 1631), (1648, 1648),
      (1750, 1757), (1759, 1768), (1770, 1773), (1807, 1807), (1809, 1809), (1840, 1866),
      (1958, 1968), (2027, 2037), (2042, 2042), (2045, 2045), (2070, 2093), (2137, 2139),
      (2184, 2184), (2192, 2193), (2200, 2207), (2249, 2306), (2362, 2362), (2364, 2364),
      (2369, 2376), (2381, 2381), (2385, 2391), (2402, 2403), (2417, 2417), (2433, 2433),
      (2492, 2492), (2497, 2500), (2509, 2509), (2530, 2531), (2558, 2558), (2561, 2562),
      (2620, 2620), (2625, 2626), (2631, 2632), (2635, 2637), (2641, 2641), (2672, 2673),
      (2677, 2677), (2689, 2690), (2748, 2748), (2753, 2757), (2759, 2760), (2765, 2765),
      (2786, 2787), (2810, 2815), (2817, 2817), (2876, 2876), (2879, 2879), (2881, 2884),
      (2893, 2893), (2901, 2902), (2914, 2915), (2946, 2946), (3008, 3008), (3021, 3021),
      (3072, 3072), (3076, 3076), (3132, 3132), (3134, 3136), (3142, 3144), (3146, 3149),
      (3157, 3158), (3170, 3171), (3201, 3201), (3260, 3260), (3263, 3263), (3270, 3270),
      (3276, 3277), (3298, 3299), (3328, 3329), (3387, 3388), (3393, 3396), (3405, 3405),
      (3426, 3427), (3457, 3457), (3530, 3530), (3538, 3540), (3542, 3542), (3633, 3633),
      (3636, 3642), (3654, 3662), (3761, 3761), (3764, 3772), (3782, 3782), (3784, 3789),
      (3864, 3865), (3893, 3893), (3895, 3895), (3897, 3897), (3953, 3966), (3968, 3972),
      (3974, 3975), (3981, 3991), (3993, 4028), (4038, 4038), (4141, 4144), (4146, 4151),
      (4153, 4154), (4157, 4158), (4184, 4185), (4190, 4192), (4209, 4212), (4226, 4226),
      (4229, 4230), (4237, 4237), (4253, 4253), (4348, 4348), (4957, 4959), (5906, 5908),
      (5938, 5939), (5970, 5971), (6002, 6003), (6068, 6069), (6071, 6077), (6086, 6086),
      (6089, 6099), (6103, 6103), (6109, 6109), (6155, 6159), (6211, 6211), (6277, 6278),
      (6313, 6313), (6432, 6434), (6439, 6440), (6450, 6450), (6457, 6459), (6679, 6680),
      (6683, 6683), (6742, 6742), (6744, 6750), (6752, 6752), (6754, 6754), (6757, 6764),
      (6771, 6780), (6783, 6783), (6823, 6823), (6832, 6862), (6912, 6915), (6964, 6964),
      (6966, 6970), (6972, 6972), (6978, 6978), (7019, 7027), (7040, 7041), (7074, 7077),
      (7080, 7081), (7083, 7085), (7142, 7142), (7144, 7145), (7149, 7149), (7151, 7153),
      (7212, 7219), (7222, 7223), (7288, 7293), (7376, 7378), (7380, 7392), (7394, 7400),
      (7405, 7405), (7412, 7412), (7416, 7417), (7468, 7530), (7544, 7544), (7579, 7679),
      (8125, 8125), (8127, 8129), (8141, 8143), (8157, 8159), (8173, 8175), (8189, 8190),
      (8203, 8207), (8216, 8217), (8228, 8228), (8231, 8231), (8234, 8238), (8288, 8292),
      (8294, 8303), (8305, 8305), (8319, 8319), (8336, 8348), (8400, 8432), (11388, 11389),
      (11503, 11505), (11631, 11631), (11647, 11647), (11744, 11775), (11823, 11823), (12293, 12293),
      (12330, 12333), (12337, 12341), (12347, 12347), (12441, 12446), (12540, 12542), (40981, 40981),
      (42232, 42237), (42508, 42508), (42607, 42610), (42612, 42621), (42623, 42623), (42652, 42655),
      (42736, 42737), (42752, 42785), (42864, 42864), (42888, 42890), (42994, 42996), (43000, 43001),
      (43010, 43010), (43014, 43014), (43019, 43019), (43045, 43046), (43052, 43052), (43204, 43205),
      (43232, 43249), (43263, 43263), (43302, 43309), (43335, 43345), (43392, 43394), (43443, 43443),
      (43446, 43449), (43452, 43453), (43471, 43471), (43493, 43494), (43561, 43566), (43569, 43570),
      (43573, 43574), (43587, 43587), (43596, 43596), (43632, 43632), (43644, 43644), (43696, 43696),
      (43698, 43700), (43703, 43704), (43710, 43711), (43713, 43713), (43741, 43741), (43756, 43757),
      (43763, 43764), (43766, 43766), (43867, 43871), (43881, 43883), (44005, 44005), (44008, 44008),
      (44013, 44013), (64286, 64286), (64434, 64450), (65024, 65039), (65043, 65043), (65056, 65071),
      (65106, 65106), (65109, 65109), (65279, 65279), (65287, 65287), (65294, 65294), (65306, 65306),
      (65342, 65342), (65344, 65344), (65392, 65392), (65438, 65439), (65507, 65507), (65529, 65531),
      (66045, 66045), (66272, 66272), (66422, 66426), (67456, 67461), (67463, 67504), (67506, 67514),
      (68097, 68099), (68101, 68102), (68108, 68111), (68152, 68154), (68159, 68159), (68325, 68326),
      (68900, 68903), (69291, 69292), (69446, 69456), (69506, 69509), (69633, 69633), (69688, 69702),
      (69744, 69744), (69747, 69748), (69759, 69761), (69811, 69814), (69817, 69818), (69821, 69821),
      (69826, 69826), (69837, 69837), (69888, 69890), (69927, 69931), (69933, 69940), (70003, 70003),
      (70016, 70017), (70070, 70078), (70089, 70092), (70095, 70095), (70191, 70193), (70196, 70196),
      (70198, 70199), (70206, 70206), (70367, 70367), (70371, 70378), (70400, 70401), (70459, 70460),
      (70464, 70464), (70502, 70508), (70512, 70516), (70712, 70719), (70722, 70724), (70726, 70726),
      (70750, 70750), (70835, 70840), (70842, 70842), (70847, 70848), (70850, 70851), (71090, 71093),
      (71100, 71101), (71103, 71104), (71132, 71133), (71219, 71226), (71229, 71229), (71231, 71232),
      (71339, 71339), (71341, 71341), (71344, 71349), (71351, 71351), (71453, 71455), (71458, 71461),
      (71463, 71467), (71727, 71735), (71737, 71738), (71995, 71996), (71998, 71998), (72003, 72003),
      (72148, 72151), (72154, 72155), (72160, 72160), (72193, 72202), (72243, 72248), (72251, 72254),
      (72263, 72263), (72273, 72278), (72281, 72283), (72330, 72342), (72344, 72345), (72752, 72758),
      (72760, 72765), (72767, 72767), (72850, 72871), (72874, 72880), (72882, 72883), (72885, 72886),
      (73009, 73014), (73018, 73018), (73020, 73021), (73023, 73029), (73031, 73031), (73104, 73105),
      (73109, 73109), (73111, 73111), (73459, 73460), (78896, 78904), (92912, 92916), (92976, 92982),
      (92992, 92995), (94031, 94031), (94095, 94111), (94176, 94177), (94179, 94180), (110576, 110579),
      (110581, 110587), (110589, 110590), (113821, 113822), (113824, 113827), (118528, 118573), (118576, 118598),
      (119143, 119145), (119155, 119170), (119173, 119179), (119210, 119213), (119362, 119364), (121344, 121398),
      (121403, 121452), (121461, 121461), (121476, 121476), (121499, 121503), (121505, 121519), (122880, 122886),
      (122888, 122904), (122907, 122913), (122915, 122916), (122918, 122922), (123184, 123197), (123566, 123566),
      (123628, 123631), (125136, 125142), (125252, 125259), (127995, 127999), (917505, 917505), (917536, 917631),
      (917760, 917999)
     ]"

text \<open>The code points with the property \<open>Cased\<close>, as runs \<open>(first, last)\<close>.\<close>

definition casedRanges :: "(int \<times> int) list" where
  "casedRanges =
     [
      (65, 90), (97, 122), (170, 170), (181, 181), (186, 186), (192, 214),
      (216, 246), (248, 442), (444, 447), (452, 659), (661, 696), (704, 705),
      (736, 740), (837, 837), (880, 883), (886, 887), (890, 893), (895, 895),
      (902, 902), (904, 906), (908, 908), (910, 929), (931, 1013), (1015, 1153),
      (1162, 1327), (1329, 1366), (1376, 1416), (4256, 4293), (4295, 4295), (4301, 4301),
      (4304, 4346), (4349, 4351), (5024, 5109), (5112, 5117), (7296, 7304), (7312, 7354),
      (7357, 7359), (7424, 7615), (7680, 7957), (7960, 7965), (7968, 8005), (8008, 8013),
      (8016, 8023), (8025, 8025), (8027, 8027), (8029, 8029), (8031, 8061), (8064, 8116),
      (8118, 8124), (8126, 8126), (8130, 8132), (8134, 8140), (8144, 8147), (8150, 8155),
      (8160, 8172), (8178, 8180), (8182, 8188), (8305, 8305), (8319, 8319), (8336, 8348),
      (8450, 8450), (8455, 8455), (8458, 8467), (8469, 8469), (8473, 8477), (8484, 8484),
      (8486, 8486), (8488, 8488), (8490, 8493), (8495, 8500), (8505, 8505), (8508, 8511),
      (8517, 8521), (8526, 8526), (8544, 8575), (8579, 8580), (9398, 9449), (11264, 11492),
      (11499, 11502), (11506, 11507), (11520, 11557), (11559, 11559), (11565, 11565), (42560, 42605),
      (42624, 42653), (42786, 42887), (42891, 42894), (42896, 42954), (42960, 42961), (42963, 42963),
      (42965, 42969), (42997, 42998), (43000, 43002), (43824, 43866), (43868, 43880), (43888, 43967),
      (64256, 64262), (64275, 64279), (65313, 65338), (65345, 65370), (66560, 66639), (66736, 66771),
      (66776, 66811), (66928, 66938), (66940, 66954), (66956, 66962), (66964, 66965), (66967, 66977),
      (66979, 66993), (66995, 67001), (67003, 67004), (67456, 67456), (67459, 67461), (67463, 67504),
      (67506, 67514), (68736, 68786), (68800, 68850), (71840, 71903), (93760, 93823), (119808, 119892),
      (119894, 119964), (119966, 119967), (119970, 119970), (119973, 119974), (119977, 119980), (119982, 119993),
      (119995, 119995), (119997, 120003), (120005, 120069), (120071, 120074), (120077, 120084), (120086, 120092),
      (120094, 120121), (120123, 120126), (120128, 120132), (120134, 120134), (120138, 120144), (120146, 120485),
      (120488, 120512), (120514, 120538), (120540, 120570), (120572, 120596), (120598, 120628), (120630, 120654),
      (120656, 120686), (120688, 120712), (120714, 120744), (120746, 120770), (120772, 120779), (122624, 122633),
      (122635, 122654), (125184, 125251), (127280, 127305), (127312, 127337), (127344, 127369)
     ]"

text \<open>Lookup in the ascending tables.\<close>

fun lowerIn :: "(int \<times> int \<times> int \<times> int) list \<Rightarrow> int \<Rightarrow> int" where
  "lowerIn [] cp = cp"
| "lowerIn ((lo, hi, step, target) # rs) cp =
     (if cp < lo then cp
      else if cp \<le> hi \<and> (cp - lo) mod step = 0 then target + (cp - lo)
      else lowerIn rs cp)"

fun inRanges :: "(int \<times> int) list \<Rightarrow> int \<Rightarrow> bool" where
  "inRanges [] cp = False"
| "inRanges ((lo, hi) # rs) cp =
     (if cp < lo then False else if cp \<le> hi then True else inRanges rs cp)"

definition caseIgnorable :: "int \<Rightarrow> bool" where
  "caseIgnorable cp = inRanges caseIgnorableRanges cp"

definition cased :: "int \<Rightarrow> bool" where
  "cased cp = inRanges casedRanges cp"

text \<open>
  The full lower-case mapping of a code point other than capital sigma: U+0130, the
  capital I with dot above, is the one code point that lowers to two (U+0069 U+0307).
\<close>

definition lowerPoint :: "int \<Rightarrow> int list" where
  "lowerPoint cp = (if cp = 0x130 then [0x69, 0x307] else [lowerIn lowerRanges cp])"

text \<open>
  The condition \<open>Final_Sigma\<close> looks from the capital sigma in one direction: it skips
  the case-ignorable code points and asks whether the first other one is cased.
\<close>

fun followedByCased :: "int list \<Rightarrow> bool" where
  "followedByCased [] = False"
| "followedByCased (c # cs) = (if caseIgnorable c then followedByCased cs else cased c)"

text \<open>
  Lower-casing of a sequence of code points; \<open>passed\<close> holds the code points already
  passed, the nearest first. A capital sigma (U+03A3) that has a cased letter before it
  and none after it becomes the final sigma U+03C2, any other one U+03C3.
\<close>

fun lowerFrom :: "int list \<Rightarrow> int list \<Rightarrow> int list" where
  "lowerFrom passed [] = []"
| "lowerFrom passed (c # cs) =
     (if c = 0x3A3
      then [if followedByCased passed \<and> \<not> followedByCased cs then 0x3C2 else 0x3C3]
      else lowerPoint c) @ lowerFrom (c # passed) cs"

subsection \<open>ECMAScript string operations\<close>

text \<open>
  The code points of a string: a lead surrogate followed by a trail surrogate is one
  code point, every other code unit is a code point of its own.
\<close>

fun codePoints :: "jsstring \<Rightarrow> int list" where
  "codePoints (h # l # us) =
     (if 0xD800 \<le> h \<and> h \<le> 0xDBFF \<and> 0xDC00 \<le> l \<and> l \<le> 0xDFFF
      then (0x10000 + (h - 0xD800) * 0x400 + (l - 0xDC00)) # codePoints us
      else h # codePoints (l # us))"
| "codePoints [u] = [u]"
| "codePoints [] = []"

definition codeUnits :: "int \<Rightarrow> jsstring" where
  "codeUnits cp =
     (if cp < 0x10000 then [cp]
      else [0xD800 + (cp - 0x10000) div 0x400, 0xDC00 + (cp - 0x10000) mod 0x400])"

definition toLowerCase :: "jsstring \<Rightarrow> jsstring" where
  "toLowerCase s = concat (map codeUnits (lowerFrom [] (codePoints s)))"

text \<open>
  \<open>String.prototype.trim\<close> removes leading and trailing white space and line
  terminators: TAB, LF, VT, FF, CR, SPACE, NBSP, U+1680, U+2000 to U+200A, U+2028,
  U+2029, U+202F, U+205F, U+3000 and U+FEFF.
\<close>

definition isWhiteSpace :: "int \<Rightarrow> bool" where
  "isWhiteSpace u =
     (u \<in> {0x09, 0x0A, 0x0B, 0x0C, 0x0D, 0x20, 0xA0, 0x1680, 0x2028, 0x2029, 0x202F,
            0x205F, 0x3000, 0xFEFF}
      \<or> (0x2000 \<le> u \<and> u \<le> 0x200A))"

definition trim :: "jsstring \<Rightarrow> jsstring" where
  "trim s = rev (dropWhile isWhiteSpace (rev (dropWhile isWhiteSpace s)))"

text \<open>
  \<open>s.indexOf(q)\<close>: the smallest index \<open>k\<close> at which \<open>q\<close> occurs in \<open>s\<close>, or \<open>-1\<close>.
  \<open>indexOfFrom q s k\<close> scans the rest \<open>s\<close> of the string, which starts at index \<open>k\<close>.
\<close>

fun indexOfFrom :: "jsstring \<Rightarrow> jsstring \<Rightarrow> int \<Rightarrow> int" where
  "indexOfFrom q [] k = (if q = [] then k else -1)"
| "indexOfFrom q (c # cs) k =
     (if take (length q) (c # cs) = q then k else indexOfFrom q cs (k + 1))"

definition indexOf :: "jsstring \<Rightarrow> jsstring \<Rightarrow> int" where
  "indexOf s q = indexOfFrom q s 0"

text \<open>\<open>s.includes(q)\<close> (here \<open>includes_str\<close>) is specified through the same search.\<close>

definition includes_str :: "jsstring \<Rightarrow> jsstring \<Rightarrow> bool" where
  "includes_str s q = (indexOf s q \<noteq> -1)"

text \<open>
  \<open>s.lastIndexOf(q, pos)\<close>: the position is clamped between \<open>0\<close> and
  \<open>length s - length q\<close>; the result is the greatest index not above it at which \<open>q\<close>
  occurs, or \<open>-1\<close>.
\<close>

fun lastIndexOfUpto :: "jsstring \<Rightarrow> jsstring \<Rightarrow> nat \<Rightarrow> int" where
  "lastIndexOfUpto s q 0 = (if take (length q) s = q then 0 else -1)"
| "lastIndexOfUpto s q (Suc k) =
     (if take (length q) (drop (Suc k) s) = q then int (Suc k) else lastIndexOfUpto s q k)"

definition lastIndexOf :: "jsstring \<Rightarrow> jsstring \<Rightarrow> int \<Rightarrow> int" where
  "lastIndexOf s q pos =
     (if length s < length q then -1
      else lastIndexOfUpto s q (nat (max 0 (min pos (int (length s) - int (length q))))))"

text \<open>
  \<open>s.slice(a, b)\<close>: a negative bound counts from the end of the string, both bounds are
  clamped into the string, and an empty range gives the empty string.
\<close>

definition slice :: "jsstring \<Rightarrow> int \<Rightarrow> int \<Rightarrow> jsstring" where
  "slice s a b =
     (let len = int (length s);
          fromIdx = (if a < 0 then max (len + a) 0 else min a len);
          toIdx = (if b < 0 then max (len + b) 0 else min b len)
      in take (nat (toIdx - fromIdx)) (drop (nat fromIdx) s))"

text \<open>
  \<open>Array.prototype.join\<close> on an array of strings that may hold \<open>undefined\<close> or \<open>null\<close>
  (\<open>None\<close>), which join as the empty string.
\<close>

fun elementText :: "jsstring option \<Rightarrow> jsstring" where
  "elementText None = []"
| "elementText (Some s) = s"

fun join :: "jsstring \<Rightarrow> jsstring option list \<Rightarrow> jsstring" where
  "join sep [] = []"
| "join sep [x] = elementText x"
| "join sep (x # y # ys) = elementText x @ sep @ join sep (y # ys)"

text \<open>\<open>Boolean(v)\<close> for a string that may be absent: false for \<open>undefined\<close>, \<open>null\<close> and \<open>""\<close>.\<close>

fun truthy :: "jsstring option \<Rightarrow> bool" where
  "truthy None = False"
| "truthy (Some s) = (s \<noteq> [])"

subsection \<open>Data model\<close>

text \<open>
  Modelled from the spec: the declarations of \<open>Message\<close>, \<open>ToolCall\<close> and \<open>AgentEvent\<close>
  (modules \<open>@/sync/typesMessage\<close> and \<open>@/sync/typesRaw\<close>) are not among the sources. A message
  is a tagged union over the kinds \<open>user-text\<close>, \<open>agent-text\<close>, \<open>tool-call\<close> and
  \<open>agent-event\<close>; each message carries an identifier and a creation time in milliseconds.
  A tool has a name and a description, either of which can be absent, and the tool of a
  tool-call message can be absent itself (the source reads it with \<open>?.\<close>). An event is
  discriminated by its \<open>type\<close>: \<open>switch\<close>, \<open>message\<close>, \<open>limit-reached\<close>, \<open>ready\<close>. Data of a
  kind or of an event type that the program does not know is kept with its tag.
\<close>

record ToolCall =
  name :: "jsstring option"
  description :: "jsstring option"

datatype AgentEvent =
    Switch string
  | EventMessage jsstring
  | LimitReached int
  | Ready
  | OtherEvent string

datatype Message =
    UserText string int jsstring
  | AgentText string int jsstring
  | ToolCallMessage string int "ToolCall option"
  | AgentEventMessage string int AgentEvent
  | OtherKind string int string

text \<open>The result of \<open>createSnippet\<close>, and the \<open>SearchResult\<close> that adds the message to it.\<close>

record Snippet =
  snippet :: jsstring
  matchStart :: int
  matchEnd :: int

record SearchResult = Snippet +
  message :: Message

subsection \<open>The program\<close>

text \<open>\<open>tool?.field\<close>: absent when the tool is.\<close>

fun optionalField :: "ToolCall option \<Rightarrow> (ToolCall \<Rightarrow> jsstring option) \<Rightarrow> jsstring option" where
  "optionalField None f = None"
| "optionalField (Some t) f = f t"

fun getMessageText :: "Message \<Rightarrow> jsstring" where
  "getMessageText (UserText i c txt) = txt"
| "getMessageText (AgentText i c txt) = txt"
| "getMessageText (ToolCallMessage i c tool) =
     join (str '' '') (filter truthy [optionalField tool name, optionalField tool description])"
| "getMessageText (AgentEventMessage i c ev) =
     (case ev of EventMessage m \<Rightarrow> m | _ \<Rightarrow> [])"
| "getMessageText (OtherKind i c k) = []"

text \<open>
  The word-boundary block of \<open>createSnippet\<close>: it runs only for a positive start and
  returns the start to use.
\<close>

definition adjustStart :: "jsstring \<Rightarrow> int \<Rightarrow> int" where
  "adjustStart text start =
     (if start > 0
      then (let spaceIndex = lastIndexOf text (str '' '') (start + 10)
            in if spaceIndex > start - 10 then spaceIndex + 1 else start)
      else start)"

text \<open>\<open>maxLength\<close> has the default 100 in the source; the embedding passes it at every call.\<close>

definition createSnippet :: "jsstring \<Rightarrow> jsstring \<Rightarrow> int \<Rightarrow> Snippet" where
  "createSnippet text query maxLength =
     (let lowerText = toLowerCase text;
          lowerQuery = toLowerCase query;
          matchIndex = indexOf lowerText lowerQuery
      in if matchIndex = -1
         then \<lparr>snippet = slice text 0 maxLength, matchStart = -1, matchEnd = -1\<rparr>
         else
           (let contextSize = (maxLength - int (length query)) div 2;
                start0 = max 0 (matchIndex - contextSize);
                endIdx = min (int (length text)) (matchIndex + int (length query) + contextSize);
                start = adjustStart text start0;
                sliced = slice text start endIdx;
                prefixed = (if start > 0 then str ''...'' @ sliced else sliced);
                snip = (if endIdx < int (length text) then prefixed @ str ''...'' else prefixed);
                snippetMatchIndex = indexOf (toLowerCase snip) lowerQuery
            in \<lparr>snippet = snip, matchStart = snippetMatchIndex,
                matchEnd = snippetMatchIndex + int (length query)\<rparr>))"

text \<open>
  The loop of \<open>searchMessages\<close> over the messages, with the \<open>results\<close> array it pushes to.
\<close>

fun searchLoop :: "Message list \<Rightarrow> jsstring \<Rightarrow> jsstring \<Rightarrow> SearchResult list \<Rightarrow> SearchResult list" where
  "searchLoop [] query lowerQuery results = results"
| "searchLoop (m # ms) query lowerQuery results =
     (let text = getMessageText m
      in if text = [] then searchLoop ms query lowerQuery results
         else if includes_str (toLowerCase text) lowerQuery
         then (let r = createSnippet text query 100
               in searchLoop ms query lowerQuery
                    (results @ [\<lparr>snippet = snippet r, matchStart = matchStart r,
                                 matchEnd = matchEnd r, message = m\<rparr>]))
         else searchLoop ms query lowerQuery results)"

definition searchMessages :: "Message list \<Rightarrow> jsstring \<Rightarrow> SearchResult list" where
  "searchMessages messages query =
     (if trim query = [] then [] else searchLoop messages query (toLowerCase query) [])"

subsection \<open>Notions of the specification\<close>

text \<open>
  Two strings are equal under case-insensitive comparison when their lower-case forms
  are the same string.
\<close>

definition equalsIgnoreCase :: "jsstring \<Rightarrow> jsstring \<Rightarrow> bool" where
  "equalsIgnoreCase a b = (toLowerCase a = toLowerCase b)"


text \<open>
  \<open>q\<close> is a substring of \<open>s\<close> when it is found at some index of \<open>s\<close>.
\<close>

definition isSubstring :: "jsstring \<Rightarrow> jsstring \<Rightarrow> bool" where
  "isSubstring q s = (\<exists>i \<in> {0..length s}. take (length q) (drop i s) = q)"

text \<open>
  The nearest space at or before index \<open>pos\<close>: the last index of \<open>text\<close> not above \<open>pos\<close>
  that holds a space (U+0020), and \<open>-1\<close> when there is none.
\<close>

definition nearestSpaceUpto :: "jsstring \<Rightarrow> int \<Rightarrow> int" where
  "nearestSpaceUpto text pos =
     (case filter (\<lambda>j. int j \<le> pos \<and> text ! j = 0x20) [0..<length text] of
        [] \<Rightarrow> -1
      | j # js \<Rightarrow> int (last (j # js)))"

text \<open>
  The word-boundary adjustment in the words of the specification: for a positive start,
  the nearest space at or before \<open>start + 10\<close> is looked up, and when it is found within
  the 10 characters before \<open>start\<close>, the start moves to just after it.
\<close>

definition specAdjustStart :: "jsstring \<Rightarrow> int \<Rightarrow> int" where
  "specAdjustStart text start =
     (if start > 0
      then (let sp = nearestSpaceUpto text (start + 10)
            in if 0 \<le> sp \<and> start - 10 \<le> sp \<and> sp < start then sp + 1 else start)
      else start)"

text \<open>A search result: the fields of a snippet and the message it was built for.\<close>

definition toResult :: "Message \<Rightarrow> Snippet \<Rightarrow> SearchResult" where
  "toResult m r =
     \<lparr>snippet = snippet r, matchStart = matchStart r, matchEnd = matchEnd r, message = m\<rparr>"

subsection \<open>Facts about the string operations\<close>

lemma indexOfFrom_found:
  "0 \<le> k \<Longrightarrow> indexOfFrom q s k \<noteq> -1 \<Longrightarrow>
   \<exists>i. indexOfFrom q s k = k + int i \<and> i \<le> length s \<and> take (length q) (drop i s) = q
       \<and> (\<forall>j<i. take (length q) (drop j s) \<noteq> q)"
proof (induction s arbitrary: k)
  case Nil
  then show ?case by (auto split: if_splits)
next
  case (Cons c cs)
  show ?case
  proof (cases "take (length q) (c # cs) = q")
    case True
    then have "indexOfFrom q (c # cs) k = k + int 0 \<and> 0 \<le> length (c # cs)
        \<and> take (length q) (drop 0 (c # cs)) = q \<and> (\<forall>j<0::nat. take (length q) (drop j (c # cs)) \<noteq> q)"
      by simp
    then show ?thesis by blast
  next
    case False
    with Cons.prems have ne: "indexOfFrom q cs (k + 1) \<noteq> -1" by simp
    from Cons.prems have "0 \<le> k + 1" by simp
    from Cons.IH [OF this ne] obtain i where
      i: "indexOfFrom q cs (k + 1) = k + 1 + int i" "i \<le> length cs"
         "take (length q) (drop i cs) = q" "\<forall>j<i. take (length q) (drop j cs) \<noteq> q"
      by blast
    have "\<forall>j<Suc i. take (length q) (drop j (c # cs)) \<noteq> q"
    proof (intro allI impI)
      fix j assume "j < Suc i"
      then show "take (length q) (drop j (c # cs)) \<noteq> q"
        using False i(4) by (cases j) auto
    qed
    with False i have "indexOfFrom q (c # cs) k = k + int (Suc i) \<and> Suc i \<le> length (c # cs)
        \<and> take (length q) (drop (Suc i) (c # cs)) = q
        \<and> (\<forall>j<Suc i. take (length q) (drop j (c # cs)) \<noteq> q)"
      by simp
    then show ?thesis by blast
  qed
qed

lemma indexOfFrom_none:
  "indexOfFrom q s k = -1 \<Longrightarrow> 0 \<le> k \<Longrightarrow> take (length q) (drop i s) \<noteq> q"
proof (induction s arbitrary: k i)
  case Nil
  then show ?case by (auto split: if_splits)
next
  case (Cons c cs)
  then show ?case
    by (cases i) (auto split: if_splits)
qed

lemma indexOf_found:
  assumes "indexOf s q \<noteq> -1"
  shows "0 \<le> indexOf s q"
    and "nat (indexOf s q) + length q \<le> length s"
    and "take (length q) (drop (nat (indexOf s q)) s) = q"
    and "\<forall>j < nat (indexOf s q). take (length q) (drop j s) \<noteq> q"
proof -
  from assms have "indexOfFrom q s 0 \<noteq> -1" by (simp add: indexOf_def)
  from indexOfFrom_found [OF _ this] obtain i where
    i: "indexOf s q = int i" "i \<le> length s" "take (length q) (drop i s) = q"
       "\<forall>j<i. take (length q) (drop j s) \<noteq> q"
    by (auto simp: indexOf_def)
  from i(1) show "0 \<le> indexOf s q" by simp
  from i(1,3) show "take (length q) (drop (nat (indexOf s q)) s) = q" by simp
  from i(1,4) show "\<forall>j < nat (indexOf s q). take (length q) (drop j s) \<noteq> q" by simp
  from i(3) have "length (take (length q) (drop i s)) = length q" by simp
  with i(1,2) show "nat (indexOf s q) + length q \<le> length s" by simp
qed

lemma indexOf_none_iff:
  "indexOf s q = -1 \<longleftrightarrow> (\<forall>i. take (length q) (drop i s) \<noteq> q)"
proof
  assume "indexOf s q = -1"
  then show "\<forall>i. take (length q) (drop i s) \<noteq> q"
    using indexOfFrom_none [of q s 0] by (simp add: indexOf_def)
next
  assume a: "\<forall>i. take (length q) (drop i s) \<noteq> q"
  show "indexOf s q = -1"
  proof (rule ccontr)
    assume "indexOf s q \<noteq> -1"
    from indexOf_found(3) [OF this] a show False by blast
  qed
qed

lemma indexOf_Nil: "indexOf s [] = 0"
  by (cases s) (simp_all add: indexOf_def)

lemma slice_inside:
  "0 \<le> a \<Longrightarrow> a \<le> b \<Longrightarrow> b \<le> int (length s) \<Longrightarrow> slice s a b = take (nat (b - a)) (drop (nat a) s)"
  by (simp add: slice_def Let_def min_def)


lemma isSubstring_iff_indexOf: "isSubstring q s \<longleftrightarrow> indexOf s q \<noteq> -1"
proof
  assume "isSubstring q s"
  then show "indexOf s q \<noteq> -1"
    by (auto simp: isSubstring_def indexOf_none_iff)
next
  assume ne: "indexOf s q \<noteq> -1"
  from indexOf_found(2,3) [OF ne]
  have "nat (indexOf s q) \<le> length s" and "take (length q) (drop (nat (indexOf s q)) s) = q"
    by simp_all
  then show "isSubstring q s"
    by (auto simp: isSubstring_def)
qed

lemma includes_str_iff: "includes_str s q \<longleftrightarrow> isSubstring q s"
  by (simp add: includes_str_def isSubstring_iff_indexOf)

lemma isSubstring_Nil: "q \<noteq> [] \<Longrightarrow> \<not> isSubstring q []"
  by (auto simp: isSubstring_def)

lemma str_space: "str '' '' = [32]"
  by (simp add: str_def)

lemma length_str: "length (str s) = length s"
  by (simp add: str_def)

lemma str_eq_Nil: "str s = [] \<longleftrightarrow> s = []"
  by (simp add: str_def)

lemma str_append: "str (a @ b) = str a @ str b"
  by (simp add: str_def)

subsection \<open>Facts about lower-casing\<close>

lemma toLowerCase_Nil: "toLowerCase [] = []"
  by (simp add: toLowerCase_def)

lemma codePoints_nonempty: "s \<noteq> [] \<Longrightarrow> codePoints s \<noteq> []"
  by (cases s rule: codePoints.cases) simp_all

lemma lowerFrom_nonempty: "cs \<noteq> [] \<Longrightarrow> lowerFrom passed cs \<noteq> []"
  by (cases cs) (simp_all add: lowerPoint_def)

lemma codeUnits_nonempty: "codeUnits cp \<noteq> []"
  by (simp add: codeUnits_def)

lemma toLowerCase_nonempty: "s \<noteq> [] \<Longrightarrow> toLowerCase s \<noteq> []"
proof -
  assume "s \<noteq> []"
  then have "lowerFrom [] (codePoints s) \<noteq> []"
    by (intro lowerFrom_nonempty codePoints_nonempty)
  then obtain p ps where "lowerFrom [] (codePoints s) = p # ps"
    by (cases "lowerFrom [] (codePoints s)") simp_all
  then show ?thesis
    by (simp add: toLowerCase_def codeUnits_nonempty)
qed

subsection \<open>Facts about the snippet builder\<close>

lemma createSnippet_nomatch:
  "indexOf (toLowerCase text) (toLowerCase query) = -1 \<Longrightarrow>
   createSnippet text query maxLength =
     \<lparr>snippet = slice text 0 maxLength, matchStart = -1, matchEnd = -1\<rparr>"
  by (simp add: createSnippet_def Let_def)

lemma createSnippet_match:
  "indexOf (toLowerCase text) (toLowerCase query) \<noteq> -1 \<Longrightarrow>
   matchStart (createSnippet text query maxLength) =
     indexOf (toLowerCase (snippet (createSnippet text query maxLength))) (toLowerCase query)
   \<and> matchEnd (createSnippet text query maxLength) =
     matchStart (createSnippet text query maxLength) + int (length query)"
  by (simp add: createSnippet_def Let_def)

lemma createSnippet_found:
  assumes "matchStart (createSnippet text query maxLength) \<noteq> -1"
  shows "matchStart (createSnippet text query maxLength) =
           indexOf (toLowerCase (snippet (createSnippet text query maxLength))) (toLowerCase query)"
    and "matchEnd (createSnippet text query maxLength) =
           matchStart (createSnippet text query maxLength) + int (length query)"
proof -
  have m: "indexOf (toLowerCase text) (toLowerCase query) \<noteq> -1"
  proof
    assume "indexOf (toLowerCase text) (toLowerCase query) = -1"
    from createSnippet_nomatch [OF this, of maxLength] assms show False by simp
  qed
  from createSnippet_match [OF m, of maxLength]
  show "matchStart (createSnippet text query maxLength) =
           indexOf (toLowerCase (snippet (createSnippet text query maxLength))) (toLowerCase query)"
    and "matchEnd (createSnippet text query maxLength) =
           matchStart (createSnippet text query maxLength) + int (length query)"
    by simp_all
qed

subsection \<open>Facts about the search\<close>

lemma searchLoop_eq:
  "query \<noteq> [] \<Longrightarrow>
   searchLoop ms query (toLowerCase query) results =
     results @ map (\<lambda>m. toResult m (createSnippet (getMessageText m) query 100))
                (filter (\<lambda>m. isSubstring (toLowerCase query) (toLowerCase (getMessageText m))) ms)"
proof (induction ms arbitrary: results)
  case Nil
  then show ?case by simp
next
  case (Cons m ms)
  show ?case
  proof (cases "getMessageText m = []")
    case True
    with Cons.prems have "\<not> isSubstring (toLowerCase query) (toLowerCase (getMessageText m))"
      by (simp add: toLowerCase_Nil isSubstring_Nil toLowerCase_nonempty)
    with True Cons.IH [OF Cons.prems] show ?thesis by (simp add: Let_def)
  next
    case False
    with Cons.IH [OF Cons.prems] show ?thesis
      by (simp add: Let_def includes_str_iff toResult_def)
  qed
qed

lemma trim_whitespace: "\<forall>c \<in> set query. isWhiteSpace c \<Longrightarrow> trim query = []"
proof -
  assume "\<forall>c \<in> set query. isWhiteSpace c"
  then have dw: "dropWhile isWhiteSpace query = []" by simp
  show ?thesis by (simp only: trim_def dw rev.simps dropWhile.simps)
qed

lemma trim_nonempty: "trim query \<noteq> [] \<Longrightarrow> query \<noteq> []"
  by (auto simp: trim_def)

lemma trim_eq_Nil_iff: "trim query = [] \<longleftrightarrow> (\<forall>c \<in> set query. isWhiteSpace c)"
proof
  assume t: "trim query = []"
  show "\<forall>c \<in> set query. isWhiteSpace c"
  proof (cases "dropWhile isWhiteSpace query = []")
    case True
    then show ?thesis by simp
  next
    case False
    then have "\<not> isWhiteSpace (hd (dropWhile isWhiteSpace query))"
      by (rule hd_dropWhile)
    moreover from False have "hd (dropWhile isWhiteSpace query) \<in> set (dropWhile isWhiteSpace query)"
      by simp
    moreover from t have "\<forall>c \<in> set (dropWhile isWhiteSpace query). isWhiteSpace c"
      by (simp add: trim_def)
    ultimately show ?thesis by blast
  qed
qed (rule trim_whitespace)

lemma searchMessages_eq:
  "trim query \<noteq> [] \<Longrightarrow>
   searchMessages messages query =
     map (\<lambda>m. toResult m (createSnippet (getMessageText m) query 100))
       (filter (\<lambda>m. isSubstring (toLowerCase query) (toLowerCase (getMessageText m))) messages)"
  using searchLoop_eq [OF trim_nonempty, of query messages "[]"]
  by (simp add: searchMessages_def)

lemma searchMessages_results:
  assumes "r \<in> set (searchMessages messages query)"
  shows "\<exists>m \<in> set messages. r = toResult m (createSnippet (getMessageText m) query 100)"
proof (cases "trim query = []")
  case True
  with assms show ?thesis by (simp add: searchMessages_def)
next
  case False
  from assms searchMessages_eq [OF False, of messages] show ?thesis by auto
qed


subsection \<open>Facts about the word-boundary adjustment\<close>

lemma take1_drop_eq: "take (Suc 0) (drop j s) = [c] \<longleftrightarrow> j < length s \<and> s ! j = c"
proof (cases "j < length s")
  case True
  then have "drop j s = s ! j # drop (Suc j) s" by (simp add: Cons_nth_drop_Suc)
  with True show ?thesis by simp
next
  case False
  then show ?thesis by simp
qed

lemma case_last_snoc:
  "(case xs @ [x] of [] \<Rightarrow> a | j # js \<Rightarrow> f (last (j # js))) = f x"
  by (cases xs) simp_all

lemma lastIndexOfUpto_filter:
  "lastIndexOfUpto s [c] k =
     (case filter (\<lambda>j. j < length s \<and> s ! j = c) [0..<Suc k] of
        [] \<Rightarrow> -1 | j # js \<Rightarrow> int (last (j # js)))"
proof (induction k)
  case 0
  have "take (Suc 0) s = [c] \<longleftrightarrow> 0 < length s \<and> s ! 0 = c"
    using take1_drop_eq [of 0 s c] by simp
  then show ?case by simp
next
  case (Suc k)
  let ?P = "\<lambda>j. j < length s \<and> s ! j = c"
  have split: "filter ?P [0..<Suc (Suc k)] = filter ?P [0..<Suc k] @ (if ?P (Suc k) then [Suc k] else [])"
    by simp
  show ?case
  proof (cases "?P (Suc k)")
    case True
    then have "take (length [c]) (drop (Suc k) s) = [c]"
      using take1_drop_eq [of "Suc k" s c] by simp
    then have l: "lastIndexOfUpto s [c] (Suc k) = int (Suc k)" by simp
    from True split have "filter ?P [0..<Suc (Suc k)] = filter ?P [0..<Suc k] @ [Suc k]"
      by simp
    then have "(case filter ?P [0..<Suc (Suc k)] of [] \<Rightarrow> -1 | j # js \<Rightarrow> int (last (j # js)))
        = int (Suc k)"
      by (simp only: case_last_snoc)
    with l show ?thesis by simp
  next
    case False
    then have "take (length [c]) (drop (Suc k) s) \<noteq> [c]"
      using take1_drop_eq [of "Suc k" s c] by simp
    then have l: "lastIndexOfUpto s [c] (Suc k) = lastIndexOfUpto s [c] k" by simp
    from False split have "filter ?P [0..<Suc (Suc k)] = filter ?P [0..<Suc k]"
      by simp
    with l Suc.IH show ?thesis by (simp only:)
  qed
qed

lemma lastIndexOf_nearestSpace:
  assumes "0 \<le> pos"
  shows "lastIndexOf text [32] pos = nearestSpaceUpto text pos"
proof (cases "text = []")
  case True
  then show ?thesis by (simp add: lastIndexOf_def nearestSpaceUpto_def)
next
  case False
  define k where "k = nat (max 0 (min pos (int (length text) - 1)))"
  let ?P = "\<lambda>j. j < length text \<and> text ! j = 32"
  let ?Q = "\<lambda>j. int j \<le> pos \<and> text ! j = 32"
  from False have len: "0 < length text" by simp
  have k: "Suc k \<le> length text" "int k \<le> pos" "Suc k < length text \<Longrightarrow> int k = pos"
    using len assms unfolding k_def by linarith+
  have l: "lastIndexOf text [32] pos = lastIndexOfUpto text [32] k"
    using len by (simp add: lastIndexOf_def k_def)
  have "[0..<length text] = [0..<Suc k] @ [Suc k..<length text]"
    using k(1) by (metis le0 upt_add_eq_append le_Suc_ex)
  then have "filter ?Q [0..<length text] = filter ?Q [0..<Suc k] @ filter ?Q [Suc k..<length text]"
    by (metis filter_append)
  moreover have "filter ?Q [Suc k..<length text] = []"
    using k(3) by (auto simp: filter_empty_conv)
  moreover have "filter ?Q [0..<Suc k] = filter ?P [0..<Suc k]"
    using k(1,2) by (intro filter_cong) auto
  ultimately have "filter ?Q [0..<length text] = filter ?P [0..<Suc k]" by simp
  then show ?thesis
    unfolding l nearestSpaceUpto_def lastIndexOfUpto_filter by simp
qed

lemma adjustStart_nearestSpace:
  "adjustStart text start0 =
     (if start0 > 0 \<and> nearestSpaceUpto text (start0 + 10) > start0 - 10
      then nearestSpaceUpto text (start0 + 10) + 1 else start0)"
proof (cases "start0 > 0")
  case True
  then have "lastIndexOf text [32] (start0 + 10) = nearestSpaceUpto text (start0 + 10)"
    by (intro lastIndexOf_nearestSpace) simp
  with True show ?thesis by (simp add: adjustStart_def Let_def str_space)
next
  case False
  then show ?thesis by (simp add: adjustStart_def)
qed

lemma createSnippet_snippet:
  assumes "indexOf (toLowerCase text) (toLowerCase query) \<noteq> -1"
  shows "snippet (createSnippet text query maxLength) =
     (let matchIndex = indexOf (toLowerCase text) (toLowerCase query);
          contextSize = (maxLength - int (length query)) div 2;
          start0 = max 0 (matchIndex - contextSize);
          endIdx = min (int (length text)) (matchIndex + int (length query) + contextSize);
          start = adjustStart text start0
      in (if start > 0 then str ''...'' else []) @ slice text start endIdx
           @ (if endIdx < int (length text) then str ''...'' else []))"
  using assms by (simp add: createSnippet_def Let_def)

subsection \<open>Facts about the capital I with dot above\<close>




section \<open>The claims\<close>

text \<open>
  Claim C1 says that, when \<open>matchStart\<close> is not \<open>-1\<close>, the part of the snippet from
  \<open>matchStart\<close> to \<open>matchEnd\<close> equals the query under case-insensitive comparison. The
  program breaks it: the second lookup takes the index in the lower-cased snippet and
  uses it in the snippet itself, and lower-casing can change the length. For a message
  with the text U+0130 \<open>fox\<close> (capital I with dot above, then \<open>fox\<close>) and the query \<open>fox\<close>,
  the lower-cased snippet is U+0069 U+0307 \<open>fox\<close>, where the query is at index 2; the
  offsets are 2 and 5, and in the snippet they mark \<open>ox\<close>.
\<close>

theorem searchMessages_dotted_I_marks_ox:
  "searchMessages [UserText ''m1'' 0 (0x130 # str ''fox'')] (str ''fox'')
     = [\<lparr>snippet = 0x130 # str ''fox'', matchStart = 2, matchEnd = 5,
          message = UserText ''m1'' 0 (0x130 # str ''fox'')\<rparr>]
   \<and> slice (0x130 # str ''fox'') 2 5 = str ''ox''
   \<and> \<not> equalsIgnoreCase (str ''ox'') (str ''fox'')"
  by code_simp




text \<open>
  Claim C3. For a query that is empty or made of white space only, \<open>searchMessages\<close>
  returns the empty list, whatever the messages.
\<close>

theorem searchMessages_blank_query:
  "query = [] \<or> (\<forall>c \<in> set query. isWhiteSpace c) \<Longrightarrow> searchMessages messages query = []"
proof -
  assume "query = [] \<or> (\<forall>c \<in> set query. isWhiteSpace c)"
  then have "\<forall>c \<in> set query. isWhiteSpace c" by auto
  then have "trim query = []" by (rule trim_whitespace)
  then show ?thesis by (simp add: searchMessages_def)
qed

text \<open>A query of space, tab, line feed, ideographic space and space, and the empty query.\<close>

theorem searchMessages_blank_query_witness:
  "isWhiteSpace 0x20 \<and> isWhiteSpace 0x09 \<and> isWhiteSpace 0x0A \<and> isWhiteSpace 0x3000
   \<and> searchMessages [UserText ''m1'' 10 (str ''a b''), AgentText ''m2'' 20 (str '' '')]
         [0x20, 0x09, 0x0A, 0x3000, 0x20] = []
   \<and> searchMessages [UserText ''m1'' 10 (str ''a b'')] [] = []"
proof -
  have w: "isWhiteSpace 0x20" "isWhiteSpace 0x09" "isWhiteSpace 0x0A" "isWhiteSpace 0x3000"
    by code_simp+
  then have h: "[0x20, 0x09, 0x0A, 0x3000, 0x20] = ([] :: jsstring)
      \<or> (\<forall>c \<in> set [0x20, 0x09, 0x0A, 0x3000, 0x20]. isWhiteSpace c)"
    by simp
  have e: "[] = ([] :: jsstring) \<or> (\<forall>c \<in> set ([] :: jsstring). isWhiteSpace c)" by simp
  from searchMessages_blank_query [OF h, of "[UserText ''m1'' 10 (str ''a b''), AgentText ''m2'' 20 (str '' '')]"]
    searchMessages_blank_query [OF e, of "[UserText ''m1'' 10 (str ''a b'')]"] w
  show ?thesis by blast
qed




text \<open>
  Claim C5 says that \<open>matchStart = -1\<close> implies \<open>matchEnd = -1\<close>. The program breaks it:
  a message of 102 letters \<open>a\<close>, searched for with these 102 letters, matches; the
  context size is \<open>(100 - 102) div 2 = -1\<close>, the start is 1 and the end 101. No space is
  found, and the word-boundary step takes the \<open>-1\<close> of the lookup for an index above
  \<open>1 - 10\<close> and sets the start to 0. The snippet is the first 101 letters followed by
  an ellipsis and does not hold the query any more, so the second lookup gives
  \<open>matchStart = -1\<close>, and \<open>matchEnd\<close> is \<open>-1 + 102 = 101\<close>.
\<close>

theorem searchMessages_long_query_offsets:
  "map (\<lambda>r. (matchStart r, matchEnd r))
     (searchMessages [UserText ''m1'' 0 (str (replicate 102 CHR ''a''))] (str (replicate 102 CHR ''a'')))
   = [(-1, 101)]"
  by code_simp

text \<open>The same on a small input, with \<open>maxLength = 5\<close> below the length of the query.\<close>

theorem createSnippet_cut_match_offsets:
  "createSnippet (str ''hello world'') (str ''hello world'') 5
     = \<lparr>snippet = (str ''...wo...''), matchStart = -1, matchEnd = 10\<rparr>"
  by code_simp

text \<open>
  Claim C6, amended. When the query occurs at \<open>matchIndex\<close>, with
  \<open>contextSize = (maxLength - length query) div 2\<close>, \<open>start0 = max 0 (matchIndex - contextSize)\<close>
  and \<open>endIdx = min (length text) (matchIndex + length query + contextSize)\<close>: let \<open>sp\<close>
  be the index of the nearest space at or before \<open>start0 + 10\<close>. The start moves to
  \<open>sp + 1\<close> exactly when \<open>start0\<close> is positive and such a space exists at an index above
  \<open>start0 - 10\<close>; the space can lie up to 10 characters after \<open>start0\<close> as well as up
  to 9 characters before it. The end is used as computed. The snippet is the slice from
  the start to the end, with an ellipsis in front when the start is positive and one
  behind when the end is before the end of the text. This is stated where a space
  exists, or \<open>start0\<close> is not positive, or \<open>start0\<close> is at least 9.
\<close>

theorem createSnippet_word_boundary:
  "indexOf (toLowerCase text) (toLowerCase query) \<noteq> -1 \<Longrightarrow>
   (let matchIndex = indexOf (toLowerCase text) (toLowerCase query);
        contextSize = (maxLength - int (length query)) div 2;
        start0 = max 0 (matchIndex - contextSize);
        endIdx = min (int (length text)) (matchIndex + int (length query) + contextSize);
        sp = nearestSpaceUpto text (start0 + 10);
        start = (if start0 > 0 \<and> 0 \<le> sp \<and> start0 - 10 < sp then sp + 1 else start0)
    in 0 \<le> sp \<or> start0 \<le> 0 \<or> 9 \<le> start0 \<longrightarrow>
       snippet (createSnippet text query maxLength) =
         (if start > 0 then (str ''...'') else []) @ slice text start endIdx
           @ (if endIdx < int (length text) then (str ''...'') else []))"
proof -
  assume m: "indexOf (toLowerCase text) (toLowerCase query) \<noteq> -1"
  have same: "(if s0 > 0 \<and> 0 \<le> sp \<and> s0 - 10 < sp then sp + 1 else s0)
      = (if s0 > 0 \<and> sp > s0 - 10 then sp + 1 else s0)"
    if "0 \<le> sp \<or> s0 \<le> 0 \<or> 9 \<le> s0" for sp s0 :: int
    using that by auto
  show ?thesis
    unfolding createSnippet_snippet [OF m] Let_def adjustStart_nearestSpace
    by (intro impI) (simp only: same)
qed

text \<open>
  The query at index 18 and \<open>maxLength = 10\<close>: \<open>start0\<close> is 14, the nearest space at or
  before index 24 is at index 7, seven characters before \<open>start0\<close>, and the start becomes 8.
\<close>

theorem createSnippet_word_boundary_witness:
  "indexOf (toLowerCase (str ''aaaaaaa bbbbbbbbbbxccccccccc'')) (toLowerCase (str ''X'')) = 18
   \<and> 18 \<noteq> (-1 :: int)
   \<and> nearestSpaceUpto (str ''aaaaaaa bbbbbbbbbbxccccccccc'') (14 + 10) = 7
   \<and> snippet (createSnippet (str ''aaaaaaa bbbbbbbbbbxccccccccc'') (str ''X'') 10)
       = (str ''...'') @ slice (str ''aaaaaaa bbbbbbbbbbxccccccccc'') 8 23 @ (str ''...'')
   \<and> (str ''...'') @ slice (str ''aaaaaaa bbbbbbbbbbxccccccccc'') 8 23 @ (str ''...'') = (str ''...bbbbbbbbbbxcccc...'')"
proof -
  let ?t = "(str ''aaaaaaa bbbbbbbbbbxccccccccc'')"
  have i: "indexOf (toLowerCase ?t) (toLowerCase (str ''X'')) = 18" by code_simp
  then have h: "indexOf (toLowerCase ?t) (toLowerCase (str ''X'')) \<noteq> -1" by simp
  have n: "nearestSpaceUpto ?t (14 + 10) = 7" by code_simp
  have s: "(str ''...'') @ slice ?t 8 23 @ (str ''...'') = (str ''...bbbbbbbbbbxcccc...'')" by code_simp
  from createSnippet_word_boundary [OF h, of 10]
  have "snippet (createSnippet ?t (str ''X'') 10) = (str ''...'') @ slice ?t 8 23 @ (str ''...'')"
    unfolding i Let_def using n by (simp add: length_str)
  with i n s show ?thesis by simp
qed

text \<open>
  Claim C6 as stated fails: the adjustment is not limited to a space within the 10
  characters before the start. Here the query is at index 19, \<open>maxLength\<close> is 10 and the
  start is 15; the nearest space at or before index 25 is at index 17, after the start,
  and the program moves the start to 18, where the specification's rule keeps 15.
\<close>

theorem adjustStart_space_after_start:
  "indexOf (toLowerCase (str ''aaaaaaaaaaaaaaaaa bxcdefgh'')) (toLowerCase (str ''x'')) = 19
   \<and> max 0 (19 - (10 - int (length (str ''x''))) div 2) = (15 :: int)
   \<and> lastIndexOf (str ''aaaaaaaaaaaaaaaaa bxcdefgh'') (str '' '') (15 + 10) = 17
   \<and> \<not> (17 < (15 :: int))
   \<and> adjustStart (str ''aaaaaaaaaaaaaaaaa bxcdefgh'') 15 = 18
   \<and> specAdjustStart (str ''aaaaaaaaaaaaaaaaa bxcdefgh'') 15 = 15
   \<and> adjustStart (str ''aaaaaaaaaaaaaaaaa bxcdefgh'') 15 \<noteq> specAdjustStart (str ''aaaaaaaaaaaaaaaaa bxcdefgh'') 15
   \<and> snippet (createSnippet (str ''aaaaaaaaaaaaaaaaa bxcdefgh'') (str ''x'') 10) = (str ''...bxcdef...'')"
proof -
  let ?t = "(str ''aaaaaaaaaaaaaaaaa bxcdefgh'')"
  have 1: "indexOf (toLowerCase ?t) (toLowerCase (str ''x'')) = 19" by code_simp
  have 2: "max 0 (19 - (10 - int (length (str ''x''))) div 2) = (15 :: int)" by (simp add: str_def)
  have 3: "lastIndexOf ?t (str '' '') (15 + 10) = 17" by code_simp
  have 4: "adjustStart ?t 15 = 18" by code_simp
  have 5: "specAdjustStart ?t 15 = 15" by code_simp
  have 6: "snippet (createSnippet ?t (str ''x'') 10) = (str ''...bxcdef...'')" by code_simp
  show ?thesis unfolding 1 3 4 5 6 using 2 by simp
qed

text \<open>
  Claim C7. For a tool-call message \<open>getMessageText\<close> returns the name and the
  description of the tool with one space between them; a part that is absent or empty
  is left out together with the space, so that nothing is put before or after the
  remaining part. A tool named \<open>Read\<close> with the empty description gives \<open>Read\<close>.
\<close>

theorem getMessageText_tool_call:
  "getMessageText (ToolCallMessage i c tool) =
     (let n = elementText (optionalField tool name);
          d = elementText (optionalField tool description)
      in if n = [] then d else if d = [] then n else n @ (str '' '') @ d)
   \<and> getMessageText (ToolCallMessage i c (Some \<lparr>name = Some (str ''Read''), description = Some (str '''')\<rparr>))
       = (str ''Read'')"
proof -
  have "join (str '' '') (filter truthy [a, b]) =
     (if elementText a = [] then elementText b
      else if elementText b = [] then elementText a
      else elementText a @ (str '' '') @ elementText b)" for a b
    by (cases a; cases b) auto
  then show ?thesis by (simp add: Let_def str_eq_Nil)
qed

text \<open>Both parts, the description alone, and no tool at all.\<close>

theorem getMessageText_tool_call_witness:
  "getMessageText (ToolCallMessage ''m1'' 5 (Some \<lparr>name = Some (str ''Bash''), description = Some (str ''List files'')\<rparr>))
     = (str ''Bash List files'')
   \<and> getMessageText (ToolCallMessage ''m2'' 6 (Some \<lparr>name = None, description = Some (str ''List files'')\<rparr>))
     = (str ''List files'')
   \<and> getMessageText (ToolCallMessage ''m3'' 7 None) = []"
  using getMessageText_tool_call [of "''m1''" 5 "Some \<lparr>name = Some (str ''Bash''), description = Some (str ''List files'')\<rparr>"]
    getMessageText_tool_call [of "''m2''" 6 "Some \<lparr>name = None, description = Some (str ''List files'')\<rparr>"]
    getMessageText_tool_call [of "''m3''" 7 None]
  by (simp add: Let_def str_def)

text \<open>
  Claim C8. \<open>getMessageText\<close> is a total function with no failing branch. For an event
  message it returns the display message of the event when the event is of the
  \<open>message\<close> variant and the empty string for every other variant; for a message of a
  kind that it does not know it returns the empty string.
\<close>

theorem getMessageText_event_and_unknown:
  "(\<forall>m. ev = EventMessage m \<longrightarrow> getMessageText (AgentEventMessage i c ev) = m)
   \<and> ((\<forall>m. ev \<noteq> EventMessage m) \<longrightarrow> getMessageText (AgentEventMessage i c ev) = [])
   \<and> getMessageText (OtherKind i c k) = []"
  by (cases ev) simp_all

text \<open>An event with a message, the \<open>ready\<close> event, an event of an unknown type, an unknown kind.\<close>

theorem getMessageText_event_and_unknown_witness:
  "getMessageText (AgentEventMessage ''e1'' 1 (EventMessage (str ''Session resumed''))) = (str ''Session resumed'')
   \<and> getMessageText (AgentEventMessage ''e2'' 2 Ready) = []
   \<and> getMessageText (AgentEventMessage ''e3'' 3 (OtherEvent ''compact'')) = []
   \<and> getMessageText (OtherKind ''e1'' 1 ''image'') = []"
  using getMessageText_event_and_unknown [of "EventMessage (str ''Session resumed'')" "''e1''" 1 "''image''"]
    getMessageText_event_and_unknown [of Ready "''e2''" 2]
    getMessageText_event_and_unknown [of "OtherEvent ''compact''" "''e3''" 3]
  by simp

text \<open>
  Claim C9 says that, when \<open>matchStart\<close> is not \<open>-1\<close>, the offsets are indices into the
  snippet, with \<open>matchEnd\<close> not beyond its end. The program breaks it on the input of
  claim C1: for the text U+0130 \<open>fox\<close> and the query \<open>fox\<close> the snippet is the text, of
  length 4, and the offsets, found in the lower-cased snippet of length 5, are 2 and 5.
\<close>

theorem createSnippet_dotted_I_matchEnd_outside:
  "matchStart (createSnippet (0x130 # str ''fox'') (str ''fox'') 100) = 2
   \<and> matchEnd (createSnippet (0x130 # str ''fox'') (str ''fox'') 100) = 5
   \<and> int (length (snippet (createSnippet (0x130 # str ''fox'') (str ''fox'') 100))) = 4"
  by code_simp

text \<open>
  Claim C10. With the empty query \<open>createSnippet\<close> never takes the no-match branch: the
  empty query is found at index 0 of any text, and \<open>matchStart\<close> and \<open>matchEnd\<close> are both
  0, for every text and every \<open>maxLength\<close>.
\<close>

theorem createSnippet_empty_query:
  "indexOf (toLowerCase text) (toLowerCase []) = 0
   \<and> matchStart (createSnippet text [] maxLength) = 0
   \<and> matchEnd (createSnippet text [] maxLength) = 0"
proof -
  have q: "toLowerCase [] = []" by (simp add: toLowerCase_def)
  have "indexOf (toLowerCase text) (toLowerCase []) \<noteq> -1"
    by (simp add: q indexOf_Nil)
  from createSnippet_match [OF this, of maxLength] show ?thesis
    by (simp add: q indexOf_Nil)
qed

text \<open>Seven letters, the empty query and the negative \<open>maxLength\<close> \<open>-10\<close>.\<close>

theorem createSnippet_empty_query_witness:
  "matchStart (createSnippet (str ''aaaaaaa'') [] (-10)) = 0
   \<and> matchEnd (createSnippet (str ''aaaaaaa'') [] (-10)) = 0
   \<and> snippet (createSnippet (str ''aaaaaaa'') [] (-10)) = (str ''aa...'')"
proof -
  have "snippet (createSnippet (str ''aaaaaaa'') [] (-10)) = (str ''aa...'')" by code_simp
  with createSnippet_empty_query [of "(str ''aaaaaaa'')" "-10"] show ?thesis by simp
qed

end
